theory Spec2Isabelle
  imports Main "HOL-Library.Monad_Syntax" "HOL-Library.AList"
begin

section \<open>Interval skip list (CGAL/Interval\_skip\_list.h)\<close>

text \<open>
  A shallow embedding of the interval skip list. Every operation returns an \<open>option\<close>:
  \<open>Some\<close> is a normal return of the C++ function, \<open>None\<close> stands for a run that does
  not return normally (a null or released pointer is dereferenced, an array is indexed out
  of its bounds, an \<open>assert\<close> fails, or a loop runs forever).
\<close>

subsection \<open>Intervals and the element store\<close>

type_synonym addr = nat
type_synonym handle = nat

text \<open>
  Modelled from the spec: the \<open>Interval\<close> template argument (its class is not part of
  the header). Values are integers and intervals are closed, as in the end-to-end
  scenarios of the specification; \<open>contains_interval a b\<close> holds when every point of
  \<open>[a, b]\<close> lies in the interval.
\<close>

record interval =
  inf_v :: int
  sup_v :: int

definition contains :: "interval \<Rightarrow> int \<Rightarrow> bool" where
  "contains I v \<longleftrightarrow> inf_v I \<le> v \<and> v \<le> sup_v I"

definition contains_interval :: "interval \<Rightarrow> int \<Rightarrow> int \<Rightarrow> bool" where
  "contains_interval I a b \<longleftrightarrow> inf_v I \<le> a \<and> b \<le> sup_v I"

text \<open>
  Modelled from the spec: \<open>DS_Container\<close>, the stable element store. A handle is the
  index of a slot; \<open>get_new_element\<close> hands out a fresh slot, \<open>release_element\<close>
  frees a live one, \<open>size\<close> counts the live slots. A handle is dereferenceable until it is
  released.
\<close>

type_synonym container = "interval option list"

definition deref :: "container \<Rightarrow> handle \<Rightarrow> interval option" where
  "deref C h = (if h < length C then C ! h else None)"

definition get_new_element :: "container \<Rightarrow> interval \<Rightarrow> handle \<times> container" where
  "get_new_element C I = (length C, C @ [Some I])"

definition release_element :: "container \<Rightarrow> handle \<Rightarrow> container option" where
  "release_element C h = do { _ \<leftarrow> deref C h; Some (C[h := None]) }"

definition container_size :: "container \<Rightarrow> nat" where
  "container_size C = length (filter (\<lambda>e. e \<noteq> None) C)"

subsection \<open>Marker lists (IntervalList)\<close>

text \<open>
  An \<open>IntervalList\<close> is a singly linked list of interval handles; \<open>insert\<close> prepends.
  A loop \<open>for (m = l.get_first(); m != NULL; m = l.get_next(m))\<close> is a fold over the list
  from its head.
\<close>

fun foldM :: "('a \<Rightarrow> 's \<Rightarrow> 's option) \<Rightarrow> 'a list \<Rightarrow> 's \<Rightarrow> 's option" where
  "foldM f [] s = Some s"
| "foldM f (x # xs) s = do { s' \<leftarrow> f x s; foldM f xs s' }"

text \<open>\<open>IntervalList::remove(I, res)\<close>: unlink the first cell whose interval equals \<open>I\<close>.\<close>

fun il_remove :: "container \<Rightarrow> interval \<Rightarrow> handle list \<Rightarrow> (handle option \<times> handle list) option" where
  "il_remove C I [] = Some (None, [])"
| "il_remove C I (h # hs) = do {
     J \<leftarrow> deref C h;
     if J \<noteq> I then do { (r, hs') \<leftarrow> il_remove C I hs; Some (r, h # hs') }
     else Some (Some h, hs) }"

definition il_removeAll :: "container \<Rightarrow> handle list \<Rightarrow> handle list \<Rightarrow> handle list option" where
  "il_removeAll C self l =
     foldM (\<lambda>h self. do { I \<leftarrow> deref C h; (_, self') \<leftarrow> il_remove C I self; Some self' }) l self"

definition il_copy :: "handle list \<Rightarrow> handle list \<Rightarrow> handle list" where
  "il_copy self from = fold (\<lambda>h self. h # self) from self"

text \<open>\<open>IntervalList::copy(OutputIterator)\<close>: write every interval of the list to the sink.\<close>

fun il_output :: "container \<Rightarrow> handle list \<Rightarrow> interval list \<Rightarrow> interval list option" where
  "il_output C [] out = Some out"
| "il_output C (h # hs) out = do { I \<leftarrow> deref C h; il_output C hs (out @ [I]) }"

subsection \<open>Nodes and the store\<close>

definition MAX_FORWARD :: nat where
  "MAX_FORWARD = 48"

text \<open>
  \<open>IntervalSLnode\<close>. The store \<open>links\<close> maps the address of every allocated node to its
  fields (an association list, read with \<open>map_of\<close>); \<open>delete\<close> removes the entry, and
  addresses are not reused. The fields \<open>markers\<close> and \<open>eqMarkers\<close> point to list objects
  that the constructor allocates and that are never reassigned; the contents of these
  list objects are kept in \<open>marks\<close>, under the address of the node (and the level); a
  missing entry is an empty list. The header's \<open>key\<close> is never initialised: reading it
  is a failure.
\<close>

record IntervalSLnode =
  is_header :: bool
  key :: int
  forward :: "addr option list"
  ownerCount :: int
  topLevel :: nat

type_synonym links = "(addr \<times> IntervalSLnode) list"

record marks =
  markers :: "((addr \<times> nat) \<times> handle list) list"
  eqMarkers :: "(addr \<times> handle list) list"

definition markers_of :: "marks \<Rightarrow> addr \<Rightarrow> nat \<Rightarrow> handle list" where
  "markers_of M x i = (case map_of (markers M) (x, i) of None \<Rightarrow> [] | Some l \<Rightarrow> l)"

definition eqMarkers_of :: "marks \<Rightarrow> addr \<Rightarrow> handle list" where
  "eqMarkers_of M x = (case map_of (eqMarkers M) x of None \<Rightarrow> [] | Some l \<Rightarrow> l)"

text \<open>The list objects of a node that is being constructed or destroyed: all empty.\<close>

definition clear_lists :: "addr \<Rightarrow> marks \<Rightarrow> marks" where
  "clear_lists x M =
     \<lparr>markers = filter (\<lambda>e. fst (fst e) \<noteq> x) (markers M),
      eqMarkers = filter (\<lambda>e. fst e \<noteq> x) (eqMarkers M)\<rparr>"

record isl =
  nodes :: links
  next_node :: addr
  lists :: marks
  header :: addr
  maxLevel :: nat
  container :: container
  rand :: "nat \<Rightarrow> bool"
  rand_pos :: nat

definition new_node :: "int \<Rightarrow> nat \<Rightarrow> IntervalSLnode" where
  "new_node searchKey levels =
     \<lparr>is_header = False, key = searchKey, forward = replicate (levels + 1) None,
      ownerCount = 0, topLevel = levels\<rparr>"

definition new_header :: "nat \<Rightarrow> IntervalSLnode" where
  "new_header levels =
     \<lparr>is_header = True, key = 0, forward = replicate (levels + 1) None,
      ownerCount = 0, topLevel = levels\<rparr>"

text \<open>The constructor; \<open>R\<close> is the sequence of outcomes of \<open>P < rand.get_double(0,1)\<close>.\<close>

definition isl_new :: "(nat \<Rightarrow> bool) \<Rightarrow> isl" where
  "isl_new R =
     \<lparr>nodes = [(0, new_header MAX_FORWARD)], next_node = 1,
      lists = \<lparr>markers = [], eqMarkers = []\<rparr>,
      header = 0, maxLevel = 0, container = [], rand = R, rand_pos = 0\<rparr>"

definition get_key :: "links \<Rightarrow> addr \<Rightarrow> int option" where
  "get_key L x = do { n \<leftarrow> map_of L x; if is_header n then None else Some (key n) }"

definition get_forward :: "links \<Rightarrow> addr \<Rightarrow> nat \<Rightarrow> addr option option" where
  "get_forward L x i = do { n \<leftarrow> map_of L x; if i < length (forward n) then Some (forward n ! i) else None }"

definition set_forward :: "links \<Rightarrow> addr \<Rightarrow> nat \<Rightarrow> addr option \<Rightarrow> links option" where
  "set_forward L x i y = do {
     n \<leftarrow> map_of L x;
     if i < length (forward n) then Some (AList.update x (n\<lparr>forward := (forward n)[i := y]\<rparr>) L)
     else None }"

definition mk_get :: "links \<Rightarrow> marks \<Rightarrow> addr \<Rightarrow> nat \<Rightarrow> handle list option" where
  "mk_get L M x i = do { n \<leftarrow> map_of L x; if i \<le> topLevel n then Some (markers_of M x i) else None }"

definition mk_put :: "marks \<Rightarrow> addr \<Rightarrow> nat \<Rightarrow> handle list \<Rightarrow> marks" where
  "mk_put M x i l = M\<lparr>markers := AList.update (x, i) l (markers M)\<rparr>"

definition mk_insert :: "links \<Rightarrow> marks \<Rightarrow> addr \<Rightarrow> nat \<Rightarrow> handle \<Rightarrow> marks option" where
  "mk_insert L M x i h = do { l \<leftarrow> mk_get L M x i; Some (mk_put M x i (h # l)) }"

definition mk_remove :: "links \<Rightarrow> container \<Rightarrow> marks \<Rightarrow> addr \<Rightarrow> nat \<Rightarrow> interval \<Rightarrow> (handle option \<times> marks) option" where
  "mk_remove L C M x i I = do {
     l \<leftarrow> mk_get L M x i; (r, l') \<leftarrow> il_remove C I l; Some (r, mk_put M x i l') }"

definition eq_get :: "links \<Rightarrow> marks \<Rightarrow> addr \<Rightarrow> handle list option" where
  "eq_get L M x = do { _ \<leftarrow> map_of L x; Some (eqMarkers_of M x) }"

definition eq_put :: "marks \<Rightarrow> addr \<Rightarrow> handle list \<Rightarrow> marks" where
  "eq_put M x l = M\<lparr>eqMarkers := AList.update x l (eqMarkers M)\<rparr>"

definition eq_insert :: "links \<Rightarrow> marks \<Rightarrow> addr \<Rightarrow> handle \<Rightarrow> marks option" where
  "eq_insert L M x h = do { l \<leftarrow> eq_get L M x; Some (eq_put M x (h # l)) }"

definition eq_remove :: "links \<Rightarrow> container \<Rightarrow> marks \<Rightarrow> addr \<Rightarrow> interval \<Rightarrow> (handle option \<times> marks) option" where
  "eq_remove L C M x I = do {
     l \<leftarrow> eq_get L M x; (r, l') \<leftarrow> il_remove C I l; Some (r, eq_put M x l') }"

text \<open>\<open>if (I->contains(x->key)) x->eqMarkers->insert(I)\<close>\<close>

definition eq_insert_if :: "links \<Rightarrow> container \<Rightarrow> marks \<Rightarrow> addr \<Rightarrow> handle \<Rightarrow> marks option" where
  "eq_insert_if L C M x h = do {
     I \<leftarrow> deref C h; k \<leftarrow> get_key L x;
     if contains I k then eq_insert L M x h else Some M }"

text \<open>The local array \<open>update[MAX_FORWARD]\<close>; a slot is \<open>None\<close> until it is assigned.\<close>

type_synonym upd = "addr option list"

definition upd_set :: "upd \<Rightarrow> nat \<Rightarrow> addr \<Rightarrow> upd option" where
  "upd_set u i x = (if i < length u then Some (u[i := Some x]) else None)"

definition upd_get :: "upd \<Rightarrow> nat \<Rightarrow> addr option" where
  "upd_get u i = (if i < length u then u ! i else None)"

subsection \<open>Searching\<close>

text \<open>\<open>while (x->forward[i] != 0 && x->forward[i]->key < searchKey) x = x->forward[i];\<close>\<close>

partial_function (option) advance :: "links \<Rightarrow> nat \<Rightarrow> int \<Rightarrow> addr \<Rightarrow> addr option" where
  "advance L i searchKey x = do {
     f \<leftarrow> get_forward L x i;
     case f of None \<Rightarrow> Some x
     | Some y \<Rightarrow> do {
         ky \<leftarrow> get_key L y;
         if ky < searchKey then advance L i searchKey y else Some x } }"

declare advance.simps [code]

text \<open>The loop \<open>for (i = maxLevel; i >= 0; i--)\<close> of \<open>search\<close>; the counter is \<open>i + 1\<close>.\<close>

fun search_levels :: "links \<Rightarrow> int \<Rightarrow> nat \<Rightarrow> addr \<Rightarrow> upd \<Rightarrow> (addr \<times> upd) option" where
  "search_levels L searchKey 0 x update = Some (x, update)"
| "search_levels L searchKey (Suc i) x update = do {
     x' \<leftarrow> advance L i searchKey x;
     update' \<leftarrow> upd_set update i x';
     search_levels L searchKey i x' update' }"

text \<open>\<open>search(searchKey, update)\<close>: the node after the last one below \<open>searchKey\<close>.\<close>

definition search_update :: "isl \<Rightarrow> int \<Rightarrow> (addr option \<times> upd) option" where
  "search_update s searchKey = do {
     (x, update) \<leftarrow> search_levels (nodes s) searchKey (Suc (maxLevel s)) (header s)
                      (replicate MAX_FORWARD None);
     f \<leftarrow> get_forward (nodes s) x 0;
     Some (f, update) }"

fun search_plain :: "links \<Rightarrow> int \<Rightarrow> nat \<Rightarrow> addr \<Rightarrow> addr option" where
  "search_plain L searchKey 0 x = Some x"
| "search_plain L searchKey (Suc i) x = do {
     x' \<leftarrow> advance L i searchKey x;
     search_plain L searchKey i x' }"

text \<open>The public \<open>search(searchKey)\<close>: the node with that key, or null.\<close>

definition search :: "int \<Rightarrow> isl \<Rightarrow> (addr option \<times> isl) option" where
  "search searchKey s = do {
     x \<leftarrow> search_plain (nodes s) searchKey (Suc (maxLevel s)) (header s);
     f \<leftarrow> get_forward (nodes s) x 0;
     case f of None \<Rightarrow> Some (None, s)
     | Some y \<Rightarrow> do {
         ky \<leftarrow> get_key (nodes s) y;
         Some (if ky = searchKey then Some y else None, s) } }"


subsection \<open>Stabbing query and \<open>is_contained\<close>\<close>

text \<open>\<open>while (x->forward[i] != 0 && searchKey >= x->forward[i]->key) x = x->forward[i];\<close>\<close>

partial_function (option) advance_le :: "links \<Rightarrow> nat \<Rightarrow> int \<Rightarrow> addr \<Rightarrow> addr option" where
  "advance_le L i searchKey x = do {
     f \<leftarrow> get_forward L x i;
     case f of None \<Rightarrow> Some x
     | Some y \<Rightarrow> do {
         ky \<leftarrow> get_key L y;
         if searchKey \<ge> ky then advance_le L i searchKey y else Some x } }"

declare advance_le.simps [code]

text \<open>
  The loop \<open>for (i = maxLevel; i >= 0 && (x->isHeader() || x->key != searchKey); i--)\<close>
  of \<open>find_intervals\<close>; the counter is \<open>i + 1\<close>.
\<close>

fun find_loop :: "links \<Rightarrow> marks \<Rightarrow> container \<Rightarrow> int \<Rightarrow> nat \<Rightarrow> addr \<Rightarrow> interval list
    \<Rightarrow> interval list option" where
  "find_loop L M C searchKey 0 x out = Some out"
| "find_loop L M C searchKey (Suc i) x out = do {
     n \<leftarrow> map_of L x;
     if is_header n \<or> key n \<noteq> searchKey then do {
       x' \<leftarrow> advance_le L i searchKey x;
       n' \<leftarrow> map_of L x';
       out' \<leftarrow> (if \<not> is_header n' \<and> key n' \<noteq> searchKey then do {
                   l \<leftarrow> mk_get L M x' i; il_output C l out }
                 else if \<not> is_header n' then do {
                   l \<leftarrow> eq_get L M x'; il_output C l out }
                 else Some out);
       find_loop L M C searchKey i x' out' }
     else Some out }"

definition find_intervals :: "int \<Rightarrow> interval list \<Rightarrow> isl \<Rightarrow> (interval list \<times> isl) option" where
  "find_intervals searchKey out s = do {
     out' \<leftarrow> find_loop (nodes s) (lists s) (container s) searchKey (Suc (maxLevel s)) (header s) out;
     Some (out', s) }"

fun contained_loop :: "links \<Rightarrow> int \<Rightarrow> nat \<Rightarrow> addr \<Rightarrow> bool option" where
  "contained_loop L searchKey 0 x = Some False"
| "contained_loop L searchKey (Suc i) x = do {
     n \<leftarrow> map_of L x;
     if is_header n \<or> key n \<noteq> searchKey then do {
       x' \<leftarrow> advance_le L i searchKey x;
       n' \<leftarrow> map_of L x';
       if \<not> is_header n' \<and> key n' \<noteq> searchKey then Some True
       else if \<not> is_header n' then Some True
       else contained_loop L searchKey i x' }
     else Some False }"

definition is_contained :: "int \<Rightarrow> isl \<Rightarrow> (bool \<times> isl) option" where
  "is_contained searchKey s = do {
     b \<leftarrow> contained_loop (nodes s) searchKey (Suc (maxLevel s)) (header s);
     Some (b, s) }"

subsection \<open>Random levels\<close>

text \<open>\<open>while (P < rand.get_double(0,1)) levels++;\<close> over the outcomes \<open>R\<close>, from draw \<open>p\<close>.\<close>

partial_function (option) flips :: "(nat \<Rightarrow> bool) \<Rightarrow> nat \<Rightarrow> nat \<Rightarrow> (nat \<times> nat) option" where
  "flips R p levels = (if R p then flips R (p + 1) (levels + 1) else Some (levels, p + 1))"

declare flips.simps [code]

definition randomLevel :: "isl \<Rightarrow> (nat \<times> isl) option" where
  "randomLevel s = do {
     (levels, p) \<leftarrow> flips (rand s) (rand_pos s) 0;
     Some (if levels \<le> maxLevel s then levels else maxLevel s + 1, s\<lparr>rand_pos := p\<rparr>) }"

subsection \<open>Marker repair after the insertion of a node\<close>

text \<open>
  \<open>removeMarkFromLevel(m, i, l, r)\<close>: strip \<open>m\<close> from the level \<open>i\<close> edges and the nodes on
  the path from \<open>l\<close> up to \<open>r\<close>, and from \<open>r\<close> itself.
\<close>

partial_function (option) removeMarkFromLevel ::
    "links \<Rightarrow> container \<Rightarrow> interval \<Rightarrow> nat \<Rightarrow> addr option \<Rightarrow> addr option \<Rightarrow> marks \<Rightarrow> marks option" where
  "removeMarkFromLevel L C m i x r M =
     (case x of
        None \<Rightarrow> Some M
      | Some a \<Rightarrow>
          if x \<noteq> r then do {
            (_, M1) \<leftarrow> mk_remove L C M a i m;
            (_, M2) \<leftarrow> eq_remove L C M1 a m;
            f \<leftarrow> get_forward L a i;
            removeMarkFromLevel L C m i f r M2 }
          else do { (_, M1) \<leftarrow> eq_remove L C M a m; Some M1 })"

declare removeMarkFromLevel.simps [code]

text \<open>Phase 1, first scan: the markers on the level \<open>i\<close> edge that led into \<open>x\<close>'s place.\<close>

definition out_scan :: "links \<Rightarrow> container \<Rightarrow> addr \<Rightarrow> nat \<Rightarrow> handle \<Rightarrow> marks \<times> handle list
    \<Rightarrow> (marks \<times> handle list) option" where
  "out_scan L C x i m = (\<lambda>(M, newPromoted). do {
     I \<leftarrow> deref C m;
     kx \<leftarrow> get_key L x;
     f1 \<leftarrow> get_forward L x (i + 1);
     b \<leftarrow> f1;
     kb \<leftarrow> get_key L b;
     if contains_interval I kx kb then do {
       f0 \<leftarrow> get_forward L x i;
       M' \<leftarrow> removeMarkFromLevel L C I i f0 f1 M;
       Some (M', m # newPromoted) }
     else do {
       M' \<leftarrow> mk_insert L M x i m;
       Some (M', newPromoted) } })"

text \<open>Phase 1, second scan: the markers promoted from the levels below.\<close>

definition out_promoted :: "links \<Rightarrow> container \<Rightarrow> addr \<Rightarrow> nat \<Rightarrow> handle \<Rightarrow> marks \<times> handle list
    \<Rightarrow> (marks \<times> handle list) option" where
  "out_promoted L C x i m = (\<lambda>(M, removePromoted). do {
     I \<leftarrow> deref C m;
     kx \<leftarrow> get_key L x;
     f1 \<leftarrow> get_forward L x (i + 1);
     b \<leftarrow> f1;
     kb \<leftarrow> get_key L b;
     if \<not> contains_interval I kx kb then do {
       M1 \<leftarrow> mk_insert L M x i m;
       f0 \<leftarrow> get_forward L x i;
       a \<leftarrow> f0;
       M2 \<leftarrow> eq_insert_if L C M1 a m;
       Some (M2, m # removePromoted) }
     else do {
       f0 \<leftarrow> get_forward L x i;
       M' \<leftarrow> removeMarkFromLevel L C I i f0 f1 M;
       Some (M', removePromoted) } })"

text \<open>
  Phase 1: \<open>for (i = 0; i <= x->level() - 2 && x->forward[i+1] != 0; i++)\<close>. The result
  is the level at which the loop stops, the promoted list and the marker lists.
\<close>

function adjust_out :: "links \<Rightarrow> container \<Rightarrow> addr \<Rightarrow> upd \<Rightarrow> nat \<Rightarrow> handle list \<Rightarrow> marks
    \<Rightarrow> (nat \<times> handle list \<times> marks) option" where
  "adjust_out L C x update i promoted M = do {
     n \<leftarrow> map_of L x;
     if i + 1 \<le> topLevel n then do {
       f1 \<leftarrow> get_forward L x (i + 1);
       if f1 \<noteq> None then do {
         u \<leftarrow> upd_get update i;
         markList \<leftarrow> mk_get L M u i;
         (M1, newPromoted) \<leftarrow> foldM (out_scan L C x i) markList (M, []);
         (M2, removePromoted) \<leftarrow> foldM (out_promoted L C x i) promoted (M1, []);
         promoted1 \<leftarrow> il_removeAll C promoted removePromoted;
         adjust_out L C x update (i + 1) (il_copy promoted1 newPromoted) M2 }
       else Some (i, promoted, M) }
     else Some (i, promoted, M) }"
  by pat_completeness auto
termination
  by (relation "measure (\<lambda>(L, C, x, update, i, promoted, M).
        case map_of L x of None \<Rightarrow> 0 | Some n \<Rightarrow> Suc (topLevel n) - i)") auto

text \<open>Phase 2, first scan: a snapshot of the markers on the level \<open>i\<close> edge into \<open>x\<close>.\<close>

definition in_scan :: "links \<Rightarrow> container \<Rightarrow> addr \<Rightarrow> upd \<Rightarrow> nat \<Rightarrow> handle \<Rightarrow> marks \<times> handle list
    \<Rightarrow> (marks \<times> handle list) option" where
  "in_scan L C x update i m = (\<lambda>(M, newPromoted). do {
     I \<leftarrow> deref C m;
     u1 \<leftarrow> upd_get update (i + 1);
     ku1 \<leftarrow> get_key L u1;
     kx \<leftarrow> get_key L x;
     if contains_interval I ku1 kx then do {
       M' \<leftarrow> removeMarkFromLevel L C I i (Some u1) (Some x) M;
       Some (M', m # newPromoted) }
     else Some (M, newPromoted) })"

text \<open>Phase 2, second scan: the markers promoted from the levels below.\<close>

definition in_promoted :: "links \<Rightarrow> container \<Rightarrow> addr \<Rightarrow> upd \<Rightarrow> nat \<Rightarrow> handle \<Rightarrow> marks \<times> handle list
    \<Rightarrow> (marks \<times> handle list) option" where
  "in_promoted L C x update i m = (\<lambda>(M, removePromoted). do {
     u \<leftarrow> upd_get update i;
     nu \<leftarrow> map_of L u;
     u1 \<leftarrow> upd_get update (i + 1);
     nu1 \<leftarrow> map_of L u1;
     kx \<leftarrow> get_key L x;
     I \<leftarrow> deref C m;
     if \<not> is_header nu \<and> contains_interval I (key nu) kx \<and>
        \<not> is_header nu1 \<and> \<not> contains_interval I (key nu1) kx then do {
       M1 \<leftarrow> mk_insert L M u i m;
       M2 \<leftarrow> eq_insert_if L C M1 u m;
       Some (M2, m # removePromoted) }
     else do {
       M' \<leftarrow> removeMarkFromLevel L C I i (Some u1) (Some x) M;
       Some (M', removePromoted) } })"

text \<open>Phase 2: \<open>for (i = 0; i <= x->level() - 2 && !update[i+1]->isHeader(); i++)\<close>.\<close>

function adjust_in :: "links \<Rightarrow> container \<Rightarrow> addr \<Rightarrow> upd \<Rightarrow> nat \<Rightarrow> handle list \<Rightarrow> marks
    \<Rightarrow> (nat \<times> handle list \<times> marks) option" where
  "adjust_in L C x update i promoted M = do {
     n \<leftarrow> map_of L x;
     if i + 1 \<le> topLevel n then do {
       u1 \<leftarrow> upd_get update (i + 1);
       nu1 \<leftarrow> map_of L u1;
       if \<not> is_header nu1 then do {
         u \<leftarrow> upd_get update i;
         markList \<leftarrow> mk_get L M u i;
         (M1, newPromoted) \<leftarrow> foldM (in_scan L C x update i) (il_copy [] markList) (M, []);
         (M2, removePromoted) \<leftarrow> foldM (in_promoted L C x update i) promoted (M1, []);
         promoted1 \<leftarrow> il_removeAll C promoted removePromoted;
         adjust_in L C x update (i + 1) (il_copy promoted1 newPromoted) M2 }
       else Some (i, promoted, M) }
     else Some (i, promoted, M) }"
  by pat_completeness auto
termination
  by (relation "measure (\<lambda>(L, C, x, update, i, promoted, M).
        case map_of L x of None \<Rightarrow> 0 | Some n \<Rightarrow> Suc (topLevel n) - i)") auto

text \<open>\<open>for (i = 0; i < x->level(); i++) x->eqMarkers->copy(x->markers[i]);\<close>\<close>

definition eq_collect :: "links \<Rightarrow> addr \<Rightarrow> nat \<Rightarrow> marks \<Rightarrow> marks option" where
  "eq_collect L x i M = do {
     l \<leftarrow> mk_get L M x i;
     e \<leftarrow> eq_get L M x;
     Some (eq_put M x (il_copy e l)) }"

definition adjustMarkersOnInsert :: "links \<Rightarrow> container \<Rightarrow> addr \<Rightarrow> upd \<Rightarrow> marks \<Rightarrow> marks option" where
  "adjustMarkersOnInsert L C x update M = do {
     (i, promoted, M1) \<leftarrow> adjust_out L C x update 0 [] M;
     l \<leftarrow> mk_get L M1 x i;
     M2 \<leftarrow> Some (mk_put M1 x i (il_copy l promoted));
     u \<leftarrow> upd_get update i;
     lu \<leftarrow> mk_get L M2 u i;
     l2 \<leftarrow> mk_get L M2 x i;
     M3 \<leftarrow> Some (mk_put M2 x i (il_copy l2 lu));
     M4 \<leftarrow> foldM (\<lambda>m M. do { f \<leftarrow> get_forward L x i; a \<leftarrow> f; eq_insert_if L C M a m }) promoted M3;
     (j, promoted', M5) \<leftarrow> adjust_in L C x update 0 [] M4;
     uj \<leftarrow> upd_get update j;
     luj \<leftarrow> mk_get L M5 uj j;
     M6 \<leftarrow> Some (mk_put M5 uj j (il_copy luj promoted'));
     M7 \<leftarrow> foldM (\<lambda>m M. eq_insert_if L C M uj m) promoted' M6;
     n \<leftarrow> map_of L x;
     foldM (eq_collect L x) [0 ..< topLevel n + 1] M7 }"

text \<open>\<open>insert(const Value& searchKey)\<close>: the node with that key, created if missing.\<close>

definition raise_levels :: "isl \<Rightarrow> upd \<Rightarrow> nat \<Rightarrow> (upd \<times> marks) option" where
  "raise_levels s update newLevel =
     foldM (\<lambda>i (update, M). do {
              update' \<leftarrow> upd_set update i (header s);
              _ \<leftarrow> mk_get (nodes s) M (header s) i;
              Some (update', mk_put M (header s) i []) })
       [maxLevel s + 1 ..< newLevel + 1] (update, lists s)"

definition splice_in :: "addr \<Rightarrow> upd \<Rightarrow> nat \<Rightarrow> links \<Rightarrow> links option" where
  "splice_in x update i L = do {
     u \<leftarrow> upd_get update i;
     f \<leftarrow> get_forward L u i;
     L1 \<leftarrow> set_forward L x i f;
     set_forward L1 u i (Some x) }"

definition insert_value :: "int \<Rightarrow> isl \<Rightarrow> (addr \<times> isl) option" where
  "insert_value searchKey s = do {
     (x, update) \<leftarrow> search_update s searchKey;
     present \<leftarrow> (case x of None \<Rightarrow> Some False
                 | Some a \<Rightarrow> do { ka \<leftarrow> get_key (nodes s) a; Some (ka = searchKey) });
     if \<not> present then do {
       (newLevel, s1) \<leftarrow> randomLevel s;
       (update1, s2) \<leftarrow> (if newLevel > maxLevel s1 then do {
                           (u, M) \<leftarrow> raise_levels s1 update newLevel;
                           Some (u, s1\<lparr>lists := M, maxLevel := newLevel\<rparr>) }
                         else Some (update, s1));
       a \<leftarrow> Some (next_node s2);
       L1 \<leftarrow> Some (AList.update a (new_node searchKey newLevel) (nodes s2));
       M1 \<leftarrow> Some (clear_lists a (lists s2));
       L2 \<leftarrow> foldM (splice_in a update1) [0 ..< newLevel + 1] L1;
       M2 \<leftarrow> adjustMarkersOnInsert L2 (container s2) a update1 M1;
       Some (a, s2\<lparr>nodes := L2, next_node := a + 1, lists := M2\<rparr>) }
     else do { a \<leftarrow> x; Some (a, s) } }"


subsection \<open>Marker repair before the deletion of a node\<close>

text \<open>Phase 1: the markers on the level \<open>i\<close> edge into \<open>x\<close> that must be demoted.\<close>

definition left_scan :: "links \<Rightarrow> container \<Rightarrow> addr \<Rightarrow> addr \<Rightarrow> nat \<Rightarrow> handle \<Rightarrow> handle list
    \<Rightarrow> handle list option" where
  "left_scan L C x u i m newDemoted = do {
     fx \<leftarrow> get_forward L x i;
     case fx of None \<Rightarrow> Some (m # newDemoted)
     | Some b \<Rightarrow> do {
         I \<leftarrow> deref C m;
         ku \<leftarrow> get_key L u;
         kb \<leftarrow> get_key L b;
         if \<not> contains_interval I ku kb then Some (m # newDemoted) else Some newDemoted } }"

text \<open>
  \<open>for (y = update[i+1]; y != 0 && y != update[i]; y = y->forward[i])\<close>: put \<open>m\<close> on the
  level \<open>i\<close> edges from \<open>update[i+1]\<close> to \<open>update[i]\<close>; the result is the final \<open>y\<close>.
\<close>

partial_function (option) left_walk :: "links \<Rightarrow> container \<Rightarrow> handle \<Rightarrow> nat \<Rightarrow> addr \<Rightarrow> addr
    \<Rightarrow> addr option \<Rightarrow> marks \<Rightarrow> (addr option \<times> marks) option" where
  "left_walk L C m i u1 u y M =
     (case y of
        None \<Rightarrow> Some (None, M)
      | Some a \<Rightarrow>
          if a \<noteq> u then do {
            M1 \<leftarrow> (if a \<noteq> u1 then eq_insert_if L C M a m else Some M);
            M2 \<leftarrow> mk_insert L M1 a i m;
            f \<leftarrow> get_forward L a i;
            left_walk L C m i u1 u f M2 }
          else Some (y, M))"

declare left_walk.simps [code]

definition left_demoted :: "links \<Rightarrow> container \<Rightarrow> addr \<Rightarrow> upd \<Rightarrow> nat \<Rightarrow> handle \<Rightarrow> marks \<times> handle list
    \<Rightarrow> (marks \<times> handle list) option" where
  "left_demoted L C x update i m = (\<lambda>(M, tempRemoved). do {
     u1 \<leftarrow> upd_get update (i + 1);
     u \<leftarrow> upd_get update i;
     (y, M1) \<leftarrow> left_walk L C m i u1 u (Some u1) M;
     M2 \<leftarrow> (case y of None \<Rightarrow> Some M1
            | Some a \<Rightarrow> if a \<noteq> u1 then eq_insert_if L C M1 a m else Some M1);
     fx \<leftarrow> get_forward L x i;
     case fx of None \<Rightarrow> Some (M2, tempRemoved)
     | Some b \<Rightarrow> do {
         I \<leftarrow> deref C m;
         ku \<leftarrow> get_key L u;
         kb \<leftarrow> get_key L b;
         if contains_interval I ku kb then do {
           M3 \<leftarrow> mk_insert L M2 u i m;
           Some (M3, m # tempRemoved) }
         else Some (M2, tempRemoved) } })"

text \<open>Phase 1: \<open>for (i = x->level() - 1; i >= 0; i--)\<close>; the counter is \<open>i + 1\<close>.\<close>

fun delete_left :: "links \<Rightarrow> container \<Rightarrow> addr \<Rightarrow> upd \<Rightarrow> nat \<Rightarrow> handle list \<Rightarrow> marks \<Rightarrow> marks option" where
  "delete_left L C x update 0 demoted M = Some M"
| "delete_left L C x update (Suc i) demoted M = do {
     u \<leftarrow> upd_get update i;
     markList \<leftarrow> mk_get L M u i;
     newDemoted \<leftarrow> foldM (left_scan L C x u i) markList [];
     l \<leftarrow> il_removeAll C markList newDemoted;
     M1 \<leftarrow> Some (mk_put M u i l);
     (M2, tempRemoved) \<leftarrow> foldM (left_demoted L C x update i) demoted (M1, []);
     demoted1 \<leftarrow> il_removeAll C demoted tempRemoved;
     delete_left L C x update i (il_copy demoted1 newDemoted) M2 }"

text \<open>Phase 2: the markers on the level \<open>i\<close> edge out of \<open>x\<close> that must be demoted.\<close>

definition right_scan :: "links \<Rightarrow> container \<Rightarrow> addr \<Rightarrow> upd \<Rightarrow> nat \<Rightarrow> handle \<Rightarrow> handle list
    \<Rightarrow> handle list option" where
  "right_scan L C x update i m newDemoted = do {
     fx \<leftarrow> get_forward L x i;
     case fx of None \<Rightarrow> Some newDemoted
     | Some b \<Rightarrow> do {
         u \<leftarrow> upd_get update i;
         nu \<leftarrow> map_of L u;
         if is_header nu then Some (m # newDemoted)
         else do {
           I \<leftarrow> deref C m;
           kb \<leftarrow> get_key L b;
           if \<not> contains_interval I (key nu) kb then Some (m # newDemoted) else Some newDemoted } } }"

text \<open>\<open>for (y = x->forward[i]; y != x->forward[i+1]; y = y->forward[i])\<close>\<close>

partial_function (option) right_walk :: "links \<Rightarrow> handle \<Rightarrow> nat \<Rightarrow> addr option \<Rightarrow> addr option
    \<Rightarrow> marks \<Rightarrow> marks option" where
  "right_walk L m i stop y M =
     (if y \<noteq> stop then do {
        a \<leftarrow> y;
        M1 \<leftarrow> eq_insert L M a m;
        M2 \<leftarrow> mk_insert L M1 a i m;
        f \<leftarrow> get_forward L a i;
        right_walk L m i stop f M2 }
      else Some M)"

declare right_walk.simps [code]

definition right_demoted :: "links \<Rightarrow> container \<Rightarrow> addr \<Rightarrow> upd \<Rightarrow> nat \<Rightarrow> handle \<Rightarrow> marks \<times> handle list
    \<Rightarrow> (marks \<times> handle list) option" where
  "right_demoted L C x update i m = (\<lambda>(M, tempRemoved). do {
     fx \<leftarrow> get_forward L x i;
     fx1 \<leftarrow> get_forward L x (i + 1);
     M1 \<leftarrow> right_walk L m i fx1 fx M;
     case fx of None \<Rightarrow> Some (M1, tempRemoved)
     | Some b \<Rightarrow> do {
         u \<leftarrow> upd_get update i;
         nu \<leftarrow> map_of L u;
         if is_header nu then Some (M1, tempRemoved)
         else do {
           I \<leftarrow> deref C m;
           kb \<leftarrow> get_key L b;
           if contains_interval I (key nu) kb then Some (M1, m # tempRemoved)
           else Some (M1, tempRemoved) } } })"

text \<open>
  Phase 2: \<open>for (i = x->level() - 1; i >= 0; i--)\<close>. \<open>tempRemoved\<close> is not cleared
  between the rounds of this loop.
\<close>

fun delete_right :: "links \<Rightarrow> container \<Rightarrow> addr \<Rightarrow> upd \<Rightarrow> nat \<Rightarrow> handle list \<Rightarrow> handle list
    \<Rightarrow> marks \<Rightarrow> marks option" where
  "delete_right L C x update 0 demoted tempRemoved M = Some M"
| "delete_right L C x update (Suc i) demoted tempRemoved M = do {
     markList \<leftarrow> mk_get L M x i;
     newDemoted \<leftarrow> foldM (right_scan L C x update i) markList [];
     (M1, tempRemoved1) \<leftarrow> foldM (right_demoted L C x update i) demoted (M, tempRemoved);
     demoted1 \<leftarrow> il_removeAll C demoted tempRemoved1;
     delete_right L C x update i (il_copy demoted1 newDemoted) tempRemoved1 M1 }"

definition adjustMarkersOnDelete :: "links \<Rightarrow> container \<Rightarrow> addr \<Rightarrow> upd \<Rightarrow> marks \<Rightarrow> marks option" where
  "adjustMarkersOnDelete L C x update M = do {
     n \<leftarrow> map_of L x;
     M1 \<leftarrow> delete_left L C x update (topLevel n + 1) [] M;
     delete_right L C x update (topLevel n + 1) [] [] M1 }"

text \<open>\<open>remove(x, update)\<close>: repair the markers, splice \<open>x\<close> out of every level, delete it.\<close>

definition splice_out :: "addr \<Rightarrow> upd \<Rightarrow> nat \<Rightarrow> links \<Rightarrow> links option" where
  "splice_out x update i L = do {
     u \<leftarrow> upd_get update i;
     f \<leftarrow> get_forward L x i;
     set_forward L u i f }"

definition remove_node :: "addr \<Rightarrow> upd \<Rightarrow> isl \<Rightarrow> isl option" where
  "remove_node x update s = do {
     M \<leftarrow> adjustMarkersOnDelete (nodes s) (container s) x update (lists s);
     n \<leftarrow> map_of (nodes s) x;
     L \<leftarrow> foldM (splice_out x update) [0 ..< topLevel n + 1] (nodes s);
     Some (s\<lparr>nodes := AList.delete x L, lists := clear_lists x M\<rparr>) }"


subsection \<open>Placing and removing the markers of an interval\<close>

text \<open>
  \<open>while (i != x->level()-1 && x->forward[i+1] != 0 &&
  I->contains_interval(x->key, x->forward[i+1]->key)) i++;\<close>
\<close>

function level_up :: "links \<Rightarrow> interval \<Rightarrow> addr \<Rightarrow> nat \<Rightarrow> nat option" where
  "level_up L I x i = do {
     n \<leftarrow> map_of L x;
     if i \<noteq> topLevel n then do {
       f1 \<leftarrow> get_forward L x (i + 1);
       case f1 of None \<Rightarrow> Some i
       | Some b \<Rightarrow> do {
           kx \<leftarrow> get_key L x;
           kb \<leftarrow> get_key L b;
           if contains_interval I kx kb then level_up L I x (i + 1) else Some i } }
     else Some i }"
  by pat_completeness auto
termination
  by (relation "measure (\<lambda>(L, I, x, i). case map_of L x of None \<Rightarrow> 0 | Some n \<Rightarrow> length (forward n) - i)")
     (auto simp: get_forward_def split: if_splits)

text \<open>
  \<open>while (i != 0 && (x->forward[i] == 0 ||
  !I->contains_interval(x->key, x->forward[i]->key))) i--;\<close>
\<close>

fun level_down :: "links \<Rightarrow> interval \<Rightarrow> addr \<Rightarrow> nat \<Rightarrow> nat option" where
  "level_down L I x 0 = Some 0"
| "level_down L I x (Suc j) = do {
     f \<leftarrow> get_forward L x (Suc j);
     case f of None \<Rightarrow> level_down L I x j
     | Some b \<Rightarrow> do {
         kx \<leftarrow> get_key L x;
         kb \<leftarrow> get_key L b;
         if \<not> contains_interval I kx kb then level_down L I x j else Some (Suc j) } }"

text \<open>The ascending loop of \<open>placeMarkers\<close>; the result is the final \<open>x\<close> and \<open>i\<close>.\<close>

partial_function (option) place_up :: "links \<Rightarrow> container \<Rightarrow> handle \<Rightarrow> interval \<Rightarrow> addr \<Rightarrow> nat
    \<Rightarrow> marks \<Rightarrow> (addr \<times> nat \<times> marks) option" where
  "place_up L C h I x i M = do {
     f \<leftarrow> get_forward L x i;
     case f of None \<Rightarrow> Some (x, i, M)
     | Some b \<Rightarrow> do {
         kx \<leftarrow> get_key L x;
         kb \<leftarrow> get_key L b;
         if contains_interval I kx kb then do {
           j \<leftarrow> level_up L I x i;
           fj \<leftarrow> get_forward L x j;
           case fj of None \<Rightarrow> place_up L C h I x j M
           | Some c \<Rightarrow> do {
               M1 \<leftarrow> mk_insert L M x j h;
               M2 \<leftarrow> eq_insert_if L C M1 c h;
               place_up L C h I c j M2 } }
         else Some (x, i, M) } }"

declare place_up.simps [code]

text \<open>The non-ascending loop of \<open>placeMarkers\<close>: \<open>while (x->key != right->key)\<close>.\<close>

partial_function (option) place_down :: "links \<Rightarrow> container \<Rightarrow> handle \<Rightarrow> interval \<Rightarrow> addr \<Rightarrow> addr
    \<Rightarrow> nat \<Rightarrow> marks \<Rightarrow> marks option" where
  "place_down L C h I right x i M = do {
     kx \<leftarrow> get_key L x;
     kr \<leftarrow> get_key L right;
     if kx \<noteq> kr then do {
       j \<leftarrow> level_down L I x i;
       M1 \<leftarrow> mk_insert L M x j h;
       f \<leftarrow> get_forward L x j;
       b \<leftarrow> f;
       M2 \<leftarrow> eq_insert_if L C M1 b h;
       place_down L C h I right b j M2 }
     else Some M }"

declare place_down.simps [code]

definition placeMarkers :: "links \<Rightarrow> container \<Rightarrow> addr \<Rightarrow> addr \<Rightarrow> handle \<Rightarrow> marks \<Rightarrow> marks option" where
  "placeMarkers L C left right h M = do {
     I \<leftarrow> deref C h;
     M1 \<leftarrow> eq_insert_if L C M left h;
     (x, i, M2) \<leftarrow> place_up L C h I left 0 M1;
     place_down L C h I right x i M2 }"

text \<open>\<open>if (l->remove(I, tmp)) res = tmp;\<close>\<close>

definition keep_res :: "handle option \<Rightarrow> handle option \<Rightarrow> handle option" where
  "keep_res r res = (case r of Some t \<Rightarrow> Some t | None \<Rightarrow> res)"

text \<open>\<open>if (I.contains(x->key)) { if (x->eqMarkers->remove(I, tmp)) res = tmp; }\<close>\<close>

definition eq_remove_if :: "links \<Rightarrow> container \<Rightarrow> interval \<Rightarrow> addr \<Rightarrow> handle option \<times> marks
    \<Rightarrow> (handle option \<times> marks) option" where
  "eq_remove_if L C I x = (\<lambda>(res, M). do {
     k \<leftarrow> get_key L x;
     if contains I k then do { (r, M') \<leftarrow> eq_remove L C M x I; Some (keep_res r res, M') }
     else Some (res, M) })"

partial_function (option) unmark_up :: "links \<Rightarrow> container \<Rightarrow> interval \<Rightarrow> addr \<Rightarrow> nat
    \<Rightarrow> handle option \<Rightarrow> marks \<Rightarrow> (addr \<times> nat \<times> handle option \<times> marks) option" where
  "unmark_up L C I x i res M = do {
     f \<leftarrow> get_forward L x i;
     case f of None \<Rightarrow> Some (x, i, res, M)
     | Some b \<Rightarrow> do {
         kx \<leftarrow> get_key L x;
         kb \<leftarrow> get_key L b;
         if contains_interval I kx kb then do {
           j \<leftarrow> level_up L I x i;
           fj \<leftarrow> get_forward L x j;
           case fj of None \<Rightarrow> unmark_up L C I x j res M
           | Some c \<Rightarrow> do {
               (r, M1) \<leftarrow> mk_remove L C M x j I;
               (res2, M2) \<leftarrow> eq_remove_if L C I c (keep_res r res, M1);
               unmark_up L C I c j res2 M2 } }
         else Some (x, i, res, M) } }"

declare unmark_up.simps [code]

text \<open>The non-ascending loop of \<open>removeMarkers\<close>: \<open>while (x->key != I.sup())\<close>.\<close>

partial_function (option) unmark_down :: "links \<Rightarrow> container \<Rightarrow> interval \<Rightarrow> addr \<Rightarrow> nat
    \<Rightarrow> handle option \<Rightarrow> marks \<Rightarrow> (handle option \<times> marks) option" where
  "unmark_down L C I x i res M = do {
     kx \<leftarrow> get_key L x;
     if kx \<noteq> sup_v I then do {
       j \<leftarrow> level_down L I x i;
       (r, M1) \<leftarrow> mk_remove L C M x j I;
       f \<leftarrow> get_forward L x j;
       b \<leftarrow> f;
       (res2, M2) \<leftarrow> eq_remove_if L C I b (keep_res r res, M1);
       unmark_down L C I b j res2 M2 }
     else Some (res, M) }"

declare unmark_down.simps [code]

text \<open>
  \<open>removeMarkers(left, I)\<close>, with its final \<open>assert(*res == I)\<close>: the handle found in the
  marker lists, and the marker lists without the markers of \<open>I\<close>.
\<close>

definition removeMarkers :: "links \<Rightarrow> container \<Rightarrow> addr \<Rightarrow> interval \<Rightarrow> marks \<Rightarrow> (handle \<times> marks) option" where
  "removeMarkers L C left I M = do {
     (res1, M1) \<leftarrow> eq_remove_if L C I left (None, M);
     (x, i, res2, M2) \<leftarrow> unmark_up L C I left 0 res1 M1;
     (res3, M3) \<leftarrow> unmark_down L C I x i res2 M2;
     ih \<leftarrow> res3;
     J \<leftarrow> deref C ih;
     if J = I then Some (ih, M3) else None }"

subsection \<open>Inserting and removing intervals\<close>

definition add_owner :: "addr \<Rightarrow> int \<Rightarrow> links \<Rightarrow> links option" where
  "add_owner x d L = do { n \<leftarrow> map_of L x; Some (AList.update x (n\<lparr>ownerCount := ownerCount n + d\<rparr>) L) }"

text \<open>\<open>insert(const Interval_handle& I)\<close>\<close>

definition insert_handle :: "handle \<Rightarrow> isl \<Rightarrow> isl option" where
  "insert_handle h s = do {
     I \<leftarrow> deref (container s) h;
     (left, s1) \<leftarrow> insert_value (inf_v I) s;
     (right, s2) \<leftarrow> insert_value (sup_v I) s1;
     L1 \<leftarrow> add_owner left 1 (nodes s2);
     L2 \<leftarrow> add_owner right 1 L1;
     M \<leftarrow> placeMarkers L2 (container s2) left right h (lists s2);
     Some (s2\<lparr>nodes := L2, lists := M\<rparr>) }"

text \<open>\<open>insert(const Interval& I)\<close>\<close>

definition isl_insert :: "interval \<Rightarrow> isl \<Rightarrow> isl option" where
  "isl_insert I s = (let (ihandle, C) = get_new_element (container s) I
                     in insert_handle ihandle (s\<lparr>container := C\<rparr>))"

text \<open>\<open>if (x->ownerCount == 0) remove(x, update);\<close> after \<open>x->ownerCount--\<close>\<close>

definition drop_owner :: "addr \<Rightarrow> upd \<Rightarrow> isl \<Rightarrow> isl option" where
  "drop_owner x update s = do {
     L \<leftarrow> add_owner x (- 1) (nodes s);
     n \<leftarrow> map_of L x;
     if ownerCount n = 0 then remove_node x update (s\<lparr>nodes := L\<rparr>) else Some (s\<lparr>nodes := L\<rparr>) }"

text \<open>\<open>remove(const Interval& I)\<close>\<close>

definition isl_remove :: "interval \<Rightarrow> isl \<Rightarrow> (bool \<times> isl) option" where
  "isl_remove I s = do {
     (left, update) \<leftarrow> search_update s (inf_v I);
     case left of None \<Rightarrow> Some (False, s)
     | Some l \<Rightarrow> do {
         nl \<leftarrow> map_of (nodes s) l;
         if ownerCount nl \<le> 0 then Some (False, s)
         else do {
           (ih, M) \<leftarrow> removeMarkers (nodes s) (container s) l I (lists s);
           C \<leftarrow> release_element (container s) ih;
           s1 \<leftarrow> drop_owner l update (s\<lparr>lists := M, container := C\<rparr>);
           (right, update') \<leftarrow> search_update s1 (sup_v I);
           case right of None \<Rightarrow> Some (False, s1)
           | Some r \<Rightarrow> do {
               nr \<leftarrow> map_of (nodes s1) r;
               if ownerCount nr \<le> 0 then Some (False, s1)
               else do {
                 s2 \<leftarrow> drop_owner r update' s1;
                 Some (True, s2) } } } } }"

definition isl_size :: "isl \<Rightarrow> nat" where
  "isl_size s = container_size (container s)"

subsection \<open>Runs of operations\<close>

text \<open>A run applies inserts and removes in order and records what each one returned.\<close>

datatype op = Insert interval | Remove interval

definition apply_op :: "op \<Rightarrow> isl \<Rightarrow> (bool \<times> isl) option" where
  "apply_op p s = (case p of
      Insert I \<Rightarrow> do { s' \<leftarrow> isl_insert I s; Some (True, s') }
    | Remove I \<Rightarrow> isl_remove I s)"

fun exec :: "op list \<Rightarrow> isl \<Rightarrow> (bool list \<times> isl) option" where
  "exec [] s = Some ([], s)"
| "exec (p # ps) s = do {
     (r, s1) \<leftarrow> apply_op p s;
     (rs, s2) \<leftarrow> exec ps s1;
     Some (r # rs, s2) }"

definition closed :: "int \<Rightarrow> int \<Rightarrow> interval" where
  "closed a b = \<lparr>inf_v = a, sup_v = b\<rparr>"

definition sample3 :: "isl option" where
  "sample3 = map_option snd
     (exec [Insert (closed 1 5), Insert (closed 3 7), Insert (closed 10 12)] (isl_new (\<lambda>n. False)))"

fun inserted :: "op list \<Rightarrow> interval list" where
  "inserted [] = []"
| "inserted (Insert I # ps) = I # inserted ps"
| "inserted (Remove I # ps) = inserted ps"

fun removed :: "op list \<Rightarrow> interval list" where
  "removed [] = []"
| "removed (Insert I # ps) = removed ps"
| "removed (Remove I # ps) = I # removed ps"

definition sample_ops :: "op list" where
  "sample_ops = [Insert (closed 1 5), Insert (closed 3 7), Remove (closed 1 5)]"

text \<open>
  Observations on the index reached by a run: \<open>draws cs\<close> is the sequence of coin
  outcomes that starts with \<open>cs\<close> and continues with failures.
\<close>

definition draws :: "bool list \<Rightarrow> nat \<Rightarrow> bool" where
  "draws cs n = (n < length cs \<and> cs ! n)"

definition after :: "op list \<Rightarrow> bool list \<Rightarrow> isl option" where
  "after ops cs = map_option snd (exec ops (isl_new (draws cs)))"

definition results :: "op list \<Rightarrow> bool list \<Rightarrow> bool list option" where
  "results ops cs = map_option fst (exec ops (isl_new (draws cs)))"

definition answer :: "(isl \<Rightarrow> ('a \<times> isl) option) \<Rightarrow> isl option \<Rightarrow> 'a option" where
  "answer f so = Option.bind so (\<lambda>s. map_option fst (f s))"

definition eq_view :: "int \<Rightarrow> isl \<Rightarrow> (handle list \<times> isl) option" where
  "eq_view k s = do { (a, _) \<leftarrow> search k s; x \<leftarrow> a; l \<leftarrow> eq_get (nodes s) (lists s) x; Some (l, s) }"

definition edge_view :: "int \<Rightarrow> nat \<Rightarrow> isl \<Rightarrow> ((int \<times> handle list) option \<times> isl) option" where
  "edge_view k i s = do {
     (a, _) \<leftarrow> search k s; x \<leftarrow> a;
     f \<leftarrow> get_forward (nodes s) x i;
     case f of None \<Rightarrow> Some (None, s)
     | Some b \<Rightarrow> do { kb \<leftarrow> get_key (nodes s) b; l \<leftarrow> mk_get (nodes s) (lists s) x i; Some (Some (kb, l), s) } }"

definition twice_ops :: "op list" where
  "twice_ops = [Insert (closed 0 2), Insert (closed 0 2), Insert (closed 0 1), Remove (closed 0 2)]"

definition twice_draws :: "bool list" where
  "twice_draws = [False, True, False, True, False]"

section \<open>Properties\<close>

text \<open>
  C10: the read-only operations \<open>find_intervals\<close>, \<open>is_contained\<close> and the public
  \<open>search\<close> leave the whole index as it was: whenever one of them returns, the index it
  returns is the index it was given.
\<close>

theorem queries_leave_index_unchanged:
  "(find_intervals q out s = Some (out', s1) \<longrightarrow> s1 = s) \<and>
   (is_contained q s = Some (b, s2) \<longrightarrow> s2 = s) \<and>
   (search q s = Some (r, s3) \<longrightarrow> s3 = s)"
  by (auto simp: find_intervals_def is_contained_def search_def Option.bind_eq_Some_conv split: option.splits)

theorem queries_leave_index_unchanged_witness:
  "\<exists>s out' b r. sample3 = Some s \<and> find_intervals 4 [] s = Some (out', s) \<and>
     is_contained 4 s = Some (b, s) \<and> search 4 s = Some (r, s)"
proof -
  have "Option.bind sample3 (\<lambda>s. do {
             (out', _) \<leftarrow> find_intervals 4 [] s;
             (b, _) \<leftarrow> is_contained 4 s;
             (r, _) \<leftarrow> search 4 s;
             Some (out', b, r) }) = Some ([closed 3 7, closed 1 5], True, None)"
    by code_simp
  then obtain s out' s1 b s2 r s3 where
    s: "sample3 = Some s" and
    f: "find_intervals 4 [] s = Some (out', s1)" and
    c: "is_contained 4 s = Some (b, s2)" and
    g: "search 4 s = Some (r, s3)"
    by (auto simp: Option.bind_eq_Some_conv split: prod.splits)
  note h = queries_leave_index_unchanged [of 4 "[]" s out' s1 b s2 r s3]
  from h f have 1: "s1 = s" by (elim conjE) (erule mp)
  from h c have 2: "s2 = s" by (elim conjE) (erule mp)
  from h g have 3: "s3 = s" by (elim conjE) (erule mp)
  from f have f': "find_intervals 4 [] s = Some (out', s)" unfolding 1 .
  from c have c': "is_contained 4 s = Some (b, s)" unfolding 2 .
  from g have g': "search 4 s = Some (r, s)" unfolding 3 .
  from s f' c' g' have "sample3 = Some s \<and> find_intervals 4 [] s = Some (out', s) \<and>
     is_contained 4 s = Some (b, s) \<and> search 4 s = Some (r, s)" by (intro conjI)
  then show ?thesis by (intro exI)
qed


subsection \<open>The size of the index\<close>

lemma container_size_append: "container_size (C @ [Some I]) = container_size C + 1"
  by (simp add: container_size_def)

lemma length_filter_update_None:
  "h < length C \<Longrightarrow> C ! h = Some I \<Longrightarrow>
   length (filter (\<lambda>e. e \<noteq> None) (C[h := None])) + 1 = length (filter (\<lambda>e. e \<noteq> None) C)"
proof (induction C arbitrary: h)
  case Nil
  then show ?case by simp
next
  case (Cons e C)
  then show ?case by (cases h) auto
qed

lemma release_element_size:
  assumes "release_element C h = Some C'"
  shows "container_size C' + 1 = container_size C"
proof -
  from assms obtain I where "h < length C" "C ! h = Some I" "C' = C[h := None]"
    by (auto simp: release_element_def deref_def Option.bind_eq_Some_conv split: if_splits)
  then show ?thesis
    unfolding container_size_def using length_filter_update_None [of h C I] by (simp only:)
qed

lemma randomLevel_container: "randomLevel s = Some (l, s') \<Longrightarrow> container s' = container s"
  by (auto simp: randomLevel_def Option.bind_eq_Some_conv split: prod.splits)

lemma insert_value_container: "insert_value k s = Some (a, s') \<Longrightarrow> container s' = container s"
  by (auto simp: insert_value_def Option.bind_eq_Some_conv dest!: randomLevel_container
      split: prod.splits if_splits option.splits)

lemma insert_handle_container: "insert_handle h s = Some s' \<Longrightarrow> container s' = container s"
  by (auto simp: insert_handle_def Option.bind_eq_Some_conv dest!: insert_value_container
      split: prod.splits)

lemma isl_insert_size: "isl_insert I s = Some s' \<Longrightarrow> isl_size s' = isl_size s + 1"
  by (auto simp: isl_insert_def isl_size_def get_new_element_def container_size_append
      dest!: insert_handle_container)

lemma remove_node_container: "remove_node x u s = Some s' \<Longrightarrow> container s' = container s"
  by (auto simp: remove_node_def Option.bind_eq_Some_conv)

lemma drop_owner_container: "drop_owner x u s = Some s' \<Longrightarrow> container s' = container s"
  by (auto simp: drop_owner_def Option.bind_eq_Some_conv dest!: remove_node_container
      split: if_splits)

lemma isl_remove_size: "isl_remove I s = Some (True, s') \<Longrightarrow> isl_size s' + 1 = isl_size s"
  by (auto simp: isl_remove_def isl_size_def Option.bind_eq_Some_conv
      dest!: drop_owner_container release_element_size
      split: prod.splits option.splits if_splits)


lemma isl_new_size: "isl_size (isl_new R) = 0"
  by (simp add: isl_new_def isl_size_def container_size_def)

lemma exec_size:
  "exec ops s = Some (rs, s') \<Longrightarrow> list_all (\<lambda>r. r) rs \<Longrightarrow>
   isl_size s' + length (removed ops) = isl_size s + length (inserted ops)"
proof (induction ops arbitrary: s rs)
  case Nil
  then show ?case by simp
next
  case (Cons p ps)
  from Cons.prems(1) obtain r s1 rs1 where
    p: "apply_op p s = Some (r, s1)" and ps: "exec ps s1 = Some (rs1, s')" and rs: "rs = r # rs1"
    by (auto simp: Option.bind_eq_Some_conv split: prod.splits)
  from Cons.prems(2) rs have r: "r" and all: "list_all (\<lambda>r. r) rs1" by simp_all
  from Cons.IH [OF ps all]
  have ih: "isl_size s' + length (removed ps) = isl_size s1 + length (inserted ps)" .
  show ?case
  proof (cases p)
    case (Insert I)
    with p have "isl_insert I s = Some s1"
      by (auto simp: apply_op_def Option.bind_eq_Some_conv)
    then have "isl_size s1 = isl_size s + 1" by (rule isl_insert_size)
    with ih Insert show ?thesis by simp
  next
    case (Remove I)
    with p r have "isl_remove I s = Some (True, s1)" by (simp add: apply_op_def)
    then have "isl_size s1 + 1 = isl_size s" by (rule isl_remove_size)
    with ih Remove show ?thesis by simp
  qed
qed

text \<open>
  C8: \<open>size()\<close> counts the stored intervals. Every insert that returns adds one, every
  remove that returns true takes one away, and after a run from the empty index in which
  every remove returned true the size is the number of inserts minus the number of removes.
\<close>

theorem size_law:
  "(isl_insert I s = Some s1 \<longrightarrow> isl_size s1 = isl_size s + 1) \<and>
   (isl_remove I s = Some (True, s2) \<longrightarrow> isl_size s2 + 1 = isl_size s) \<and>
   (exec ops (isl_new R) = Some (rs, s3) \<and> list_all (\<lambda>r. r) rs \<longrightarrow>
      isl_size s3 + length (removed ops) = length (inserted ops))"
  using isl_insert_size [of I s s1] isl_remove_size [of I s s2]
    exec_size [of ops "isl_new R" rs s3]
  by (simp add: isl_new_size)

theorem size_law_witness:
  "\<exists>s1 s2 s3. isl_insert (closed 1 5) (isl_new (\<lambda>n. False)) = Some s1 \<and>
     isl_size s1 = isl_size (isl_new (\<lambda>n. False)) + 1 \<and>
     isl_remove (closed 1 5) s1 = Some (True, s2) \<and> isl_size s2 + 1 = isl_size s1 \<and>
     exec sample_ops (isl_new (\<lambda>n. False)) = Some ([True, True, True], s3) \<and>
     isl_size s3 + length (removed sample_ops) = length (inserted sample_ops) \<and>
     isl_size s3 = 1"
proof -
  have "do { s1 \<leftarrow> isl_insert (closed 1 5) (isl_new (\<lambda>n. False));
             (r, s2) \<leftarrow> isl_remove (closed 1 5) s1;
             (rs, s3) \<leftarrow> exec sample_ops (isl_new (\<lambda>n. False));
             Some (r, rs) } = Some (True, [True, True, True])"
    by code_simp
  then obtain s1 s2 s3 where
    i: "isl_insert (closed 1 5) (isl_new (\<lambda>n. False)) = Some s1" and
    r: "isl_remove (closed 1 5) s1 = Some (True, s2)" and
    e: "exec sample_ops (isl_new (\<lambda>n. False)) = Some ([True, True, True], s3)"
    by (auto simp: Option.bind_eq_Some_conv split: prod.splits)
  note h = size_law [of "closed 1 5" "isl_new (\<lambda>n. False)" s1 s2 sample_ops "\<lambda>n. False"
      "[True, True, True]" s3]
  from h i have 1: "isl_size s1 = isl_size (isl_new (\<lambda>n. False)) + 1" by blast
  from size_law [of "closed 1 5" s1 s1 s2 "[]" "\<lambda>n. False" "[]" s3] r
  have 2: "isl_size s2 + 1 = isl_size s1" by blast
  from h e have 3: "isl_size s3 + length (removed sample_ops) = length (inserted sample_ops)"
    by simp
  then have 4: "isl_size s3 = 1" by (simp add: sample_ops_def)
  from i 1 r 2 e 3 4 show ?thesis by blast
qed


subsection \<open>Removing one of two equal intervals\<close>

text \<open>
  C1 (stabbing query) fails on this run: \<open>[0,2]\<close> is inserted twice (handles 0 and 1),
  then \<open>[0,1]\<close>; the node for key 1 gets two levels. \<open>remove([0,2])\<close> unlinks the first
  cell that matches by value in each list of the staircase, which is handle 1 in the lists
  of the nodes 0 and 1 and handle 0 further on, and releases handle 0. The lists of node 0
  and node 1 still hold handle 0: the query for 0 reads a released interval, while the
  query for 2 reports the stored copy.
\<close>

theorem duplicate_removal_leaves_released_marker:
  "results twice_ops twice_draws = Some [True, True, True, True] \<and>
   map_option container (after twice_ops twice_draws) = Some [None, Some (closed 0 2), Some (closed 0 1)] \<and>
   answer (eq_view 0) (after twice_ops twice_draws) = Some [2, 0] \<and>
   answer (find_intervals 0 []) (after twice_ops twice_draws) = None \<and>
   answer (find_intervals 2 []) (after twice_ops twice_draws) = Some [closed 0 2]"
  by code_simp

subsection \<open>Removing an interval that is not stored\<close>

text \<open>
  C5 fails on these runs: \<open>remove\<close> takes the first node whose key is not below
  \<open>I.inf()\<close> for the left end point without comparing the keys, so for an interval that
  is not stored it walks the staircase from a foreign node and runs off the end of the
  list (or fails the final assertion) instead of returning false. It returns false only
  when no key reaches \<open>I.inf()\<close>.
\<close>

theorem remove_of_absent_interval_fails:
  "results [Insert (closed 1 5), Insert (closed 3 7), Remove (closed 1 5)] [] = Some [True, True, True] \<and>
   results [Insert (closed 1 5), Insert (closed 3 7), Remove (closed 1 5), Remove (closed 1 5)] [] = None \<and>
   results [Insert (closed 3 7), Remove (closed 2 6)] [] = None \<and>
   results [Insert (closed 3 7), Remove (closed 8 9)] [] = Some [True, False]"
  by code_simp

end
